theory Spec2Isabelle
  imports Complex_Main "HOL-Library.Multiset" "HOL-Library.Log_Nat"
begin

section \<open>The summary service of app.py\<close>

text \<open>
  The request handlers of \<^verbatim>\<open>src/ml-rest-api/app.py\<close>, one HOL function per handler.
  The database table is a list of rows in rowid order, passed in and returned; the
  summarization pipeline and the clock are arguments of the handlers; every exception of
  the source is a value of \<open>exn\<close>.
\<close>

subsection \<open>Python strings and \<^verbatim>\<open>str.split()\<close>\<close>

text \<open>
  A Python \<^verbatim>\<open>str\<close> is a sequence of Unicode code points, here a list of naturals.
  \<open>str_lit\<close> reads an ASCII literal of the source.
\<close>

type_synonym pystr = "nat list"

definition str_lit :: "string \<Rightarrow> pystr" where
  "str_lit s = map of_char s"

text \<open>
  The code points that \<^verbatim>\<open>str.split()\<close> without arguments treats as separators
  (those for which \<^verbatim>\<open>str.isspace()\<close> holds): U+0009..U+000D, U+001C..U+0020, U+0085,
  U+00A0, U+1680, U+2000..U+200A, U+2028, U+2029, U+202F, U+205F, U+3000.
\<close>

definition is_space :: "nat \<Rightarrow> bool" where
  "is_space c =
     ((9 \<le> c \<and> c \<le> 13) \<or> (28 \<le> c \<and> c \<le> 32) \<or> c = 133 \<or> c = 160 \<or> c = 5760 \<or>
      (8192 \<le> c \<and> c \<le> 8202) \<or> c = 8232 \<or> c = 8233 \<or> c = 8239 \<or> c = 8287 \<or>
      c = 12288)"

text \<open>
  \<^verbatim>\<open>s.split()\<close>: the maximal runs of non-space code points, in order. \<open>cur\<close> is the
  word being read.
\<close>

fun split_from :: "pystr \<Rightarrow> pystr \<Rightarrow> pystr list" where
  "split_from cur [] = (if cur = [] then [] else [cur])"
| "split_from cur (c # cs) =
     (if is_space c
      then (if cur = [] then split_from [] cs else cur # split_from [] cs)
      else split_from (cur @ [c]) cs)"

definition split :: "pystr \<Rightarrow> pystr list" where
  "split s = split_from [] s"

subsection \<open>Exceptions\<close>

text \<open>
  \<open>ProviderError m\<close> is any exception raised by the pipeline call or by indexing its
  result, with \<^verbatim>\<open>str(e) = m\<close>.
\<close>

datatype exn = ProviderError pystr | ZeroDivisionError

fun str_exn :: "exn \<Rightarrow> pystr" where
  "str_exn (ProviderError m) = m"
| "str_exn ZeroDivisionError = str_lit ''division by zero''"

subsection \<open>Python floats\<close>

text \<open>
  A Python \<^verbatim>\<open>float\<close> is an IEEE 754 double; a finite double is modelled by the rational
  number it denotes, and every operation rounds its exact result to the nearest double, a
  tie going to the even significand. The exponent range is not modelled: a word count
  is below \<open>2^63\<close>, so every value computed here is 0 or lies between \<open>2^-63\<close> and \<open>2^70\<close>,
  where every double is normal.
\<close>

text \<open>The integer nearest to \<open>y\<close>, a tie going to the even one.\<close>

definition round_half_even :: "rat \<Rightarrow> int" where
  "round_half_even y =
     (let f = \<lfloor>y\<rfloor>; d = y - of_int f
      in if d < 1 / 2 then f else if 1 / 2 < d then f + 1
         else if even f then f else f + 1)"

text \<open>
  For \<open>x > 0\<close>, the exponent \<open>e\<close> of the unit in the last place of \<open>x\<close>: the one with
  \<open>2^52 \<le> x / 2^e < 2^53\<close>. With \<open>x = n / d\<close> in lowest terms and \<open>p\<close> the difference of
  the bit lengths of \<open>n\<close> and \<open>d\<close>, \<open>x\<close> lies between \<open>2^(p-1)\<close> and \<open>2^(p+1)\<close>.
\<close>

definition double_exponent :: "rat \<Rightarrow> int" where
  "double_exponent x =
     (let (n, d) = quotient_of x; p = bitlen n - bitlen d
      in if x < 2 powi p then p - 53 else p - 52)"

text \<open>The double nearest to \<open>x \<ge> 0\<close>: \<open>x\<close> rounded to 53 significant bits.\<close>

definition to_double :: "rat \<Rightarrow> rat" where
  "to_double x =
     (if x \<le> 0 then 0
      else of_int (round_half_even (x / 2 powi double_exponent x)) * 2 powi double_exponent x)"

text \<open>
  \<^verbatim>\<open>s / n * 100\<close> for two positive lengths: the true division of two integers gives the
  double nearest to the quotient, and the product with 100 is rounded again.
\<close>

definition float_percentage :: "nat \<Rightarrow> nat \<Rightarrow> rat" where
  "float_percentage s n = to_double (to_double (of_nat s / of_nat n) * 100)"

text \<open>
  \<^verbatim>\<open>round(x, 2)\<close> for a float \<open>x \<ge> 0\<close>: CPython writes \<open>x\<close> as the nearest decimal with two
  digits after the point (a tie on the exact value of \<open>x\<close> going to the even last digit)
  and reads that decimal back as a double.
\<close>

definition py_round2 :: "rat \<Rightarrow> rat" where
  "py_round2 x = to_double (of_int (round_half_even (x * 100)) / 100)"

text \<open>
  \<^verbatim>\<open>round(len(generated_summary.split()) / len(text.split()) * 100, 2)\<close>, lines 69 and 114.
  The division raises when the text has no word.
\<close>

definition compression_ratio_of :: "pystr \<Rightarrow> pystr \<Rightarrow> exn + rat" where
  "compression_ratio_of generated_summary txt =
     (if length (split txt) = 0 then Inl ZeroDivisionError
      else Inr (py_round2 (float_percentage (length (split generated_summary))
                             (length (split txt)))))"

text \<open>
  The ratio as the specification writes it,
  \<^verbatim>\<open>round(word_count(summary_text) / word_count(original_text) * 100, 2)\<close>: the word count
  of the summary over the word count of the original, as a percentage rounded to two
  decimals.
\<close>

definition word_count :: "pystr \<Rightarrow> nat" where
  "word_count s = length (split s)"

definition spec_compression_ratio :: "pystr \<Rightarrow> pystr \<Rightarrow> rat" where
  "spec_compression_ratio summary_txt original_txt =
     py_round2 (float_percentage (word_count summary_txt) (word_count original_txt))"

subsection \<open>The Summary model\<close>

text \<open>A \<^verbatim>\<open>datetime\<close> is a count of microseconds; \<^verbatim>\<open>datetime.utcnow()\<close> is a reading of the clock.\<close>

type_synonym datetime = int

record summary =
  summary_id :: nat
  original_text :: pystr
  summary_text :: pystr
  created_at :: datetime
  updated_at :: datetime
  title :: pystr
  compression_ratio :: rat

datatype json =
    JBool bool
  | JInt int
  | JFloat rat
  | JStr pystr
  | JIso datetime
  | JArr "json list"
  | JObj "(string \<times> json) list"

text \<open>\<^verbatim>\<open>Summary.to_dict\<close>; \<open>JIso t\<close> is \<^verbatim>\<open>t.isoformat()\<close>.\<close>

definition to_dict :: "summary \<Rightarrow> (string \<times> json) list" where
  "to_dict self =
     [(''id'', JInt (int (summary_id self))),
      (''original_text'', JStr (original_text self)),
      (''summary_text'', JStr (summary_text self)),
      (''created_at'', JIso (created_at self)),
      (''updated_at'', JIso (updated_at self)),
      (''title'', JStr (title self)),
      (''compression_ratio'', JFloat (compression_ratio self))]"

subsection \<open>The table\<close>

text \<open>
  The rows of the table in rowid order. The primary key of a new row is the rowid SQLite
  assigns to an \<^verbatim>\<open>INTEGER PRIMARY KEY\<close> column: one more than the largest in the table.
\<close>

type_synonym table = "summary list"

definition next_id :: "table \<Rightarrow> nat" where
  "next_id rows = Suc (fold max (map summary_id rows) 0)"

text \<open>\<^verbatim>\<open>Summary.query.get(summary_id)\<close>: the row with this primary key.\<close>

definition query_get :: "table \<Rightarrow> nat \<Rightarrow> summary option" where
  "query_get rows i = find (\<lambda>r. summary_id r = i) rows"

text \<open>The UPDATE and DELETE statements that the commit flushes, both by primary key.\<close>

definition update_row :: "summary \<Rightarrow> table \<Rightarrow> table" where
  "update_row s rows = map (\<lambda>r. if summary_id r = summary_id s then s else r) rows"

definition delete_row :: "summary \<Rightarrow> table \<Rightarrow> table" where
  "delete_row s rows = filter (\<lambda>r. summary_id r \<noteq> summary_id s) rows"

text \<open>
  \<^verbatim>\<open>Summary.query.order_by(Summary.created_at.desc()).all()\<close>. Rows with the same
  \<open>created_at\<close> stay in table order.
\<close>

definition order_by_created_at_desc :: "table \<Rightarrow> summary list" where
  "order_by_created_at_desc rows = sort_key (\<lambda>r. - created_at r) rows"

subsection \<open>Requests and responses\<close>

text \<open>
  The value of \<^verbatim>\<open>request.get_json()\<close>: \<open>None\<close> for the JSON body \<^verbatim>\<open>null\<close>, otherwise
  an object whose keys, where present, hold a string (\<^verbatim>\<open>text\<close>, \<^verbatim>\<open>title\<close>) or an
  integer (\<^verbatim>\<open>max_length\<close>, \<^verbatim>\<open>min_length\<close>).
\<close>

record request_data =
  req_text :: "pystr option"
  req_max_length :: "int option"
  req_min_length :: "int option"
  req_title :: "pystr option"

text \<open>\<^verbatim>\<open>data.get(key, default)\<close> on an optional key.\<close>

definition data_get :: "'a option \<Rightarrow> 'a \<Rightarrow> 'a" where
  "data_get v dflt = (case v of None \<Rightarrow> dflt | Some x \<Rightarrow> x)"

text \<open>
  A response is a body and a status. \<open>NotFound\<close> is the page of \<^verbatim>\<open>get_or_404\<close>,
  \<open>InternalServerError\<close> the page Flask sends for an exception no handler catches.
\<close>

datatype body = Json json | NotFound | InternalServerError

type_synonym response = "body \<times> nat"

text \<open>\<^verbatim>\<open>summarizer(text, max_length=..., min_length=...)[0]['summary_text']\<close>\<close>

type_synonym summarizer = "pystr \<Rightarrow> int \<Rightarrow> int \<Rightarrow> exn + pystr"

definition error_body :: "pystr \<Rightarrow> body" where
  "error_body msg = Json (JObj [(''error'', JStr msg)])"

text \<open>Reading a response: its status, and the value under a key of its JSON object.\<close>

definition status :: "response \<Rightarrow> nat" where
  "status resp = snd resp"

fun field :: "response \<Rightarrow> string \<Rightarrow> json option" where
  "field (Json (JObj kvs), st) k = map_of kvs k"
| "field resp k = None"

subsection \<open>The handlers\<close>

text \<open>
  Each handler takes the table as the request finds it and returns the response with the
  table as the request leaves it. A handler writes to the table only at
  \<^verbatim>\<open>db.session.commit()\<close>: what it assigned to a loaded row before returning without a
  commit is dropped with the session when the request ends.
\<close>

text \<open>The body of the \<^verbatim>\<open>try\<close> of \<^verbatim>\<open>create_summary\<close>, lines 63 to 81.\<close>

definition create_try ::
  "summarizer \<Rightarrow> datetime \<Rightarrow> datetime \<Rightarrow> request_data \<Rightarrow> pystr \<Rightarrow> table \<Rightarrow>
   exn + (response \<times> table)" where
  "create_try summarizer utcnow1 utcnow2 d txt rows =
     (case summarizer txt
             (data_get (req_max_length d) 130)
             (data_get (req_min_length d) 30) of
        Inl e \<Rightarrow> Inl e
      | Inr generated_summary \<Rightarrow>
          (case compression_ratio_of generated_summary txt of
             Inl e \<Rightarrow> Inl e
           | Inr ratio \<Rightarrow>
               (let new_summary =
                      \<lparr>summary_id = next_id rows,
                       original_text = txt,
                       summary_text = generated_summary,
                       created_at = utcnow1,
                       updated_at = utcnow2,
                       title = data_get (req_title d) (str_lit ''Untitled''),
                       compression_ratio = ratio\<rparr>
                in Inr ((Json (JObj (to_dict new_summary)), 201), rows @ [new_summary]))))"

text \<open>
  \<^verbatim>\<open>create_summary\<close>. \<open>utcnow1\<close> and \<open>utcnow2\<close> are the two clock readings that the
  column defaults of \<open>created_at\<close> and \<open>updated_at\<close> take when the row is inserted.
  The too-short branch returns without a status, which is 200.
\<close>

definition create_summary ::
  "summarizer \<Rightarrow> datetime \<Rightarrow> datetime \<Rightarrow> request_data option \<Rightarrow> table \<Rightarrow> response \<times> table" where
  "create_summary summarizer utcnow1 utcnow2 data rows =
     (case data of
        None \<Rightarrow> ((error_body (str_lit ''No text provided''), 400), rows)
      | Some d \<Rightarrow>
          (case req_text d of
             None \<Rightarrow> ((error_body (str_lit ''No text provided''), 400), rows)
           | Some txt \<Rightarrow>
               if length (split txt) < 10
               then ((error_body (str_lit ''this text is too short to summarize''), 200), rows)
               else
                 (case create_try summarizer utcnow1 utcnow2 d txt rows of
                    Inl e \<Rightarrow> ((error_body (str_exn e), 500), rows)
                  | Inr res \<Rightarrow> res)))"

definition get_summaries :: "table \<Rightarrow> response" where
  "get_summaries rows =
     (let summaries = order_by_created_at_desc rows
      in (Json (JArr (map (\<lambda>summary. JObj (to_dict summary)) summaries)), 200))"


text \<open>The \<^verbatim>\<open>if 'text' in data\<close> block of \<^verbatim>\<open>update_summary\<close>, lines 104 to 116.\<close>

definition update_text :: "summarizer \<Rightarrow> request_data \<Rightarrow> summary \<Rightarrow> exn + summary" where
  "update_text summarizer d summary =
     (case req_text d of
        None \<Rightarrow> Inr summary
      | Some txt \<Rightarrow>
          (case summarizer txt
                  (data_get (req_max_length d) 130)
                  (data_get (req_min_length d) 30) of
             Inl e \<Rightarrow> Inl e
           | Inr generated_summary \<Rightarrow>
               (case compression_ratio_of generated_summary txt of
                  Inl e \<Rightarrow> Inl e
                | Inr ratio \<Rightarrow>
                    Inr (summary\<lparr>original_text := txt,
                                 summary_text := generated_summary,
                                 compression_ratio := ratio\<rparr>))))"

text \<open>
  \<^verbatim>\<open>update_summary\<close>. \<open>utcnow\<close> is the clock reading of line 121. With the body
  \<^verbatim>\<open>null\<close>, \<^verbatim>\<open>'text' in data\<close> raises outside the \<^verbatim>\<open>try\<close>.
\<close>

definition update_summary ::
  "summarizer \<Rightarrow> datetime \<Rightarrow> nat \<Rightarrow> request_data option \<Rightarrow> table \<Rightarrow> response \<times> table" where
  "update_summary summarizer utcnow sid data rows =
     (case query_get rows sid of
        None \<Rightarrow> ((NotFound, 404), rows)
      | Some summary \<Rightarrow>
          (case data of
             None \<Rightarrow> ((InternalServerError, 500), rows)
           | Some d \<Rightarrow>
               (case update_text summarizer d summary of
                  Inl e \<Rightarrow> ((error_body (str_exn e), 500), rows)
                | Inr summary1 \<Rightarrow>
                    (let summary2 = (case req_title d of
                                       None \<Rightarrow> summary1
                                     | Some t \<Rightarrow> summary1\<lparr>title := t\<rparr>);
                         summary3 = summary2\<lparr>updated_at := utcnow\<rparr>
                     in ((Json (JObj (to_dict summary3)), 200), update_row summary3 rows)))))"

definition delete_summary :: "nat \<Rightarrow> table \<Rightarrow> response \<times> table" where
  "delete_summary sid rows =
     (case query_get rows sid of
        None \<Rightarrow> ((NotFound, 404), rows)
      | Some summary \<Rightarrow>
          ((Json (JObj [(''message'', JStr (str_lit ''Summary deleted successfully''))]), 200),
           delete_row summary rows))"

text \<open>
  \<^verbatim>\<open>health_check\<close>. \<open>summarizer_global\<close> is the module's \<^verbatim>\<open>summarizer\<close> variable,
  \<open>cuda_is_available\<close> the value of \<^verbatim>\<open>torch.cuda.is_available()\<close>, and \<open>select_one\<close> the
  outcome of connecting and running \<^verbatim>\<open>SELECT 1\<close>: \<open>Inl\<close> when either raises.
\<close>

definition health_check :: "'m option \<Rightarrow> bool \<Rightarrow> 'e + unit \<Rightarrow> response" where
  "health_check summarizer_global cuda_is_available select_one =
     (let db_status = (case select_one of Inr u \<Rightarrow> True | Inl e \<Rightarrow> False)
      in (Json (JObj [(''status'', JStr (str_lit ''healthy'')),
                      (''model_loaded'', JBool (summarizer_global \<noteq> None)),
                      (''gpu_available'', JBool cuda_is_available),
                      (''database_connected'', JBool db_status)]), 200))"

subsection \<open>Sequences of requests\<close>

text \<open>
  The writing requests, each with the clock readings it takes, served one after another.
\<close>

datatype op =
    Create "request_data option" datetime datetime
  | Update nat "request_data option" datetime
  | Delete nat

fun step :: "summarizer \<Rightarrow> table \<Rightarrow> op \<Rightarrow> response \<times> table" where
  "step summarizer rows (Create data t1 t2) = create_summary summarizer t1 t2 data rows"
| "step summarizer rows (Update sid data t) = update_summary summarizer t sid data rows"
| "step summarizer rows (Delete sid) = delete_summary sid rows"

fun run :: "summarizer \<Rightarrow> table \<Rightarrow> op list \<Rightarrow> response list \<times> table" where
  "run summarizer rows [] = ([], rows)"
| "run summarizer rows (x # xs) =
     (let (resp, rows') = step summarizer rows x;
          (resps, rows'') = run summarizer rows' xs
      in (resp # resps, rows''))"


fun is_delete :: "op \<Rightarrow> bool" where
  "is_delete (Delete sid) = True"
| "is_delete x = False"

subsection \<open>Sample data\<close>

text \<open>
  A text of twelve words, a pipeline that keeps the first thirteen code points of a
  text of at most 200 and fails on a longer one, and the row that creating a summary of
  the text in the empty table at the clock readings 5 and 6 inserts.
\<close>

definition sample_text :: pystr where
  "sample_text = str_lit ''the quick brown fox jumps over the lazy dog and runs away''"

definition sample_summarizer :: summarizer where
  "sample_summarizer txt max_length min_length =
     (if 200 < length txt then Inl (ProviderError (str_lit ''input too long''))
      else Inr (take 13 txt))"

definition sample_row :: summary where
  "sample_row =
     \<lparr>summary_id = 1,
      original_text = sample_text,
      summary_text = str_lit ''the quick bro'',
      created_at = 5,
      updated_at = 6,
      title = str_lit ''Untitled'',
      compression_ratio = 25\<rparr>"

definition sample_request :: "pystr option \<Rightarrow> pystr option \<Rightarrow> request_data" where
  "sample_request txt ttl =
     \<lparr>req_text = txt, req_max_length = None, req_min_length = None, req_title = ttl\<rparr>"

text \<open>
  A text of \<open>n\<close> words, and a pipeline that answers every text with the same summary.
\<close>

definition sample_words :: "nat \<Rightarrow> pystr" where
  "sample_words n = concat (replicate n (str_lit ''a ''))"

definition constant_summarizer :: "pystr \<Rightarrow> summarizer" where
  "constant_summarizer generated_summary txt max_length min_length = Inr generated_summary"

definition sample_ops :: "op list" where
  "sample_ops =
     [Create (Some (sample_request (Some sample_text) None)) 5 6,
      Update 1 (Some (sample_request None (Some (str_lit ''New'')))) 9,
      Create (Some (sample_request (Some (str_lit ''too short'')) None)) 10 11]"

section \<open>Lemmas\<close>

subsection \<open>Rounding to a double\<close>

lemma round_half_even_bound: "\<bar>of_int (round_half_even y) - y\<bar> \<le> 1 / 2"
proof -
  have "of_int \<lfloor>y\<rfloor> \<le> y" "y < of_int \<lfloor>y\<rfloor> + 1" by linarith+
  then show ?thesis
    unfolding round_half_even_def Let_def by (auto simp: abs_le_iff) 
qed


lemma bitlen_powi_bounds:
  assumes "0 < n"
  shows "2 powi (bitlen n - 1) \<le> (of_int n :: rat)" and "(of_int n :: rat) < 2 powi bitlen n"
proof -
  have b: "2 ^ nat (bitlen n - 1) \<le> n" "n < 2 ^ nat (bitlen n)"
    using bitlen_bounds [OF assms] by simp_all
  have pos: "1 \<le> bitlen n"
    using assms bitlen_eq_zero_iff [of n] bitlen_nonneg [of n] by linarith
  have "(2::rat) powi (bitlen n - 1) = 2 ^ nat (bitlen n - 1)"
    using pos by (simp add: power_int_def)
  also have "\<dots> = of_int (2 ^ nat (bitlen n - 1))" by simp
  also have "\<dots> \<le> of_int n" using b(1) by (simp only: of_int_le_iff)
  finally show "2 powi (bitlen n - 1) \<le> (of_int n :: rat)" .
  have "(of_int n :: rat) < of_int (2 ^ nat (bitlen n))" using b(2) by (simp only: of_int_less_iff)
  also have "\<dots> = 2 powi bitlen n"
    using pos by (simp add: power_int_def)
  finally show "(of_int n :: rat) < 2 powi bitlen n" .
qed

lemma double_exponent_lower:
  assumes "0 < x"
  shows "2 powi (double_exponent x + 52) \<le> x"
proof -
  obtain n d where q: "quotient_of x = (n, d)" by (cases "quotient_of x")
  have d: "0 < d" using q by (rule quotient_of_denom_pos)
  have x: "x = of_int n / of_int d" using q by (rule quotient_of_div)
  have n: "0 < n" using assms d x by (simp add: zero_less_divide_iff)
  let ?p = "bitlen n - bitlen d"
  show ?thesis
  proof (cases "x < 2 powi ?p")
    case True
    then have e: "double_exponent x + 52 = ?p - 1"
      using q by (simp add: double_exponent_def)
    have "(2::rat) powi (?p - 1) = 2 powi (bitlen n - 1) / 2 powi bitlen d"
      using power_int_diff [of "2::rat" "bitlen n - 1" "bitlen d"] by (simp add: algebra_simps)
    also have "\<dots> \<le> of_int n / 2 powi bitlen d"
      using bitlen_powi_bounds(1) [OF n] by (simp add: divide_right_mono)
    also have "\<dots> \<le> of_int n / of_int d"
      using bitlen_powi_bounds(2) [OF d] n d by (simp add: frac_le)
    finally have "(2::rat) powi (?p - 1) \<le> x" using x by simp
    then show ?thesis unfolding e .
  next
    case False
    then have e: "double_exponent x + 52 = ?p"
      using q by (simp add: double_exponent_def)
    have "2 powi ?p \<le> x" using False by simp
    then show ?thesis unfolding e .
  qed
qed

lemma round_half_even_nonneg: "0 \<le> y \<Longrightarrow> 0 \<le> round_half_even y"
  by (simp add: round_half_even_def Let_def)

lemma to_double_nonneg: "0 \<le> to_double x"
  by (simp add: to_double_def round_half_even_nonneg)

lemma to_double_error:
  assumes "0 \<le> x"
  shows "\<bar>to_double x - x\<bar> \<le> x / 2 ^ 53"
proof (cases "x = 0")
  case True
  then show ?thesis by (simp add: to_double_def)
next
  case False
  then have pos: "0 < x" using assms by simp
  let ?s = "(2::rat) powi double_exponent x"
  have s: "0 < ?s" by simp
  let ?y = "x / ?s"
  have "to_double x - x = (of_int (round_half_even ?y) - ?y) * ?s"
    using pos s by (simp add: to_double_def algebra_simps)
  then have "\<bar>to_double x - x\<bar> = \<bar>of_int (round_half_even ?y) - ?y\<bar> * ?s"
    using s by (simp add: abs_mult)
  also have "\<dots> \<le> 1 / 2 * ?s"
    using round_half_even_bound [of ?y] s by (simp add: mult_right_mono)
  also have "\<dots> \<le> x / 2 ^ 53"
  proof -
    have "(2::rat) powi (double_exponent x + 52) = ?s * 2 powi 52"
      by (rule power_int_add) simp
    then have "?s * 2 ^ 52 \<le> x"
      using double_exponent_lower [OF pos] by simp
    then show ?thesis by simp
  qed
  finally show ?thesis .
qed

lemma float_percentage_error:
  "\<bar>float_percentage s n - 100 * of_nat s / of_nat n\<bar> \<le> (100 * of_nat s / of_nat n) / 2 ^ 51"
proof -
  define q :: rat where "q = of_nat s / of_nat n"
  define x1 where "x1 = to_double q"
  define x2 where "x2 = to_double (x1 * 100)"
  have q: "0 \<le> q" by (simp add: q_def)
  have e1: "\<bar>x1 - q\<bar> \<le> q / 2 ^ 53"
    unfolding x1_def using to_double_error [OF q] .
  have x1: "0 \<le> x1" unfolding x1_def by (rule to_double_nonneg)
  have c: "(2::rat) ^ 53 = 9007199254740992" "(2::rat) ^ 51 = 2251799813685248"
    by simp_all
  note e1' = e1 [unfolded abs_le_iff c]
  have x1u: "x1 \<le> 2 * q" using e1' q by linarith
  have e2: "\<bar>x2 - x1 * 100\<bar> \<le> (x1 * 100) / 2 ^ 53"
    unfolding x2_def using to_double_error [of "x1 * 100"] x1 by simp
  note e2' = e2 [unfolded abs_le_iff c]
  have "\<bar>x2 - 100 * q\<bar> \<le> (100 * q) / 2 ^ 51"
    unfolding abs_le_iff c using e1' e2' x1u q by linarith
  then show ?thesis
    by (simp add: float_percentage_def x2_def x1_def q_def)
qed

subsection \<open>Looking up rows\<close>

lemma query_get_Some_id: "query_get rows i = Some r \<Longrightarrow> summary_id r = i"
  by (auto simp: query_get_def find_Some_iff)




lemma query_get_update_row_same:
  "query_get rows (summary_id s) = Some r \<Longrightarrow> query_get (update_row s rows) (summary_id s) = Some s"
  unfolding query_get_def update_row_def
  by (induction rows) (auto split: if_splits)




subsection \<open>Texts without words\<close>

lemma split_from_Nil_iff: "split_from cur cs = [] \<longleftrightarrow> cur = [] \<and> list_all is_space cs"
  by (induction cs arbitrary: cur) auto

lemma word_count_0_iff: "word_count s = 0 \<longleftrightarrow> list_all is_space s"
  by (simp add: word_count_def split_def split_from_Nil_iff)

subsection \<open>What each handler returns\<close>

lemma create_summary_201:
  assumes "status (fst (create_summary summarizer t1 t2 data rows)) = 201"
  shows "\<exists>d txt g. data = Some d \<and> req_text d = Some txt \<and> 10 \<le> length (split txt) \<and>
           summarizer txt (data_get (req_max_length d) 130) (data_get (req_min_length d) 30) = Inr g \<and>
           create_summary summarizer t1 t2 data rows =
             ((Json (JObj (to_dict
                 \<lparr>summary_id = next_id rows, original_text = txt, summary_text = g,
                  created_at = t1, updated_at = t2,
                  title = data_get (req_title d) (str_lit ''Untitled''),
                  compression_ratio = spec_compression_ratio g txt\<rparr>)), 201),
              rows @ [\<lparr>summary_id = next_id rows, original_text = txt, summary_text = g,
                  created_at = t1, updated_at = t2,
                  title = data_get (req_title d) (str_lit ''Untitled''),
                  compression_ratio = spec_compression_ratio g txt\<rparr>])"
  using assms
  by (auto simp: create_summary_def create_try_def compression_ratio_of_def status_def
        spec_compression_ratio_def word_count_def Let_def
      split: option.splits if_splits sum.splits)

lemma create_summary_not_201:
  assumes "status (fst (create_summary summarizer t1 t2 data rows)) \<noteq> 201"
  shows "snd (create_summary summarizer t1 t2 data rows) = rows"
  using assms
  by (auto simp: create_summary_def create_try_def compression_ratio_of_def status_def Let_def
      split: option.splits if_splits sum.splits)



lemma update_summary_text_ok:
  assumes "query_get rows sid = Some r" and "req_text d = Some new_text"
    and "0 < word_count new_text"
    and "summarizer new_text (data_get (req_max_length d) 130) (data_get (req_min_length d) 30) = Inr g"
  shows "update_summary summarizer utcnow sid (Some d) rows =
           ((Json (JObj (to_dict
                 (r\<lparr>original_text := new_text, summary_text := g,
                    compression_ratio := spec_compression_ratio g new_text,
                    title := data_get (req_title d) (title r),
                    updated_at := utcnow\<rparr>))), 200),
              update_row (r\<lparr>original_text := new_text, summary_text := g,
                    compression_ratio := spec_compression_ratio g new_text,
                    title := data_get (req_title d) (title r),
                    updated_at := utcnow\<rparr>) rows)"
  using assms
  by (cases "req_title d")
     (simp_all add: update_summary_def update_text_def compression_ratio_of_def
        spec_compression_ratio_def word_count_def Let_def data_get_def)

lemma update_summary_no_words:
  assumes "query_get rows sid = Some r" and "req_text d = Some new_text"
    and "word_count new_text = 0"
  shows "update_summary summarizer utcnow sid (Some d) rows =
           ((error_body (str_exn
               (case summarizer new_text (data_get (req_max_length d) 130)
                       (data_get (req_min_length d) 30) of
                  Inl e \<Rightarrow> e | Inr g \<Rightarrow> ZeroDivisionError)), 500), rows)"
  using assms
  by (simp add: update_summary_def update_text_def compression_ratio_of_def word_count_def
      split: sum.splits)

lemma update_summary_length:
  "length (snd (update_summary summarizer utcnow sid data rows)) = length rows"
  by (simp add: update_summary_def update_row_def Let_def split: option.splits sum.splits)

lemma update_summary_status:
  "status (fst (update_summary summarizer utcnow sid data rows)) \<noteq> 201"
  by (simp add: update_summary_def status_def Let_def split: option.splits sum.splits)




subsection \<open>Sequences of requests\<close>

lemma step_length:
  assumes "\<not> is_delete x"
  shows "length (snd (step summarizer rows x)) =
           length rows + (if status (fst (step summarizer rows x)) = 201 then 1 else 0)"
proof (cases x)
  case (Create data t1 t2)
  show ?thesis
  proof (cases "status (fst (create_summary summarizer t1 t2 data rows)) = 201")
    case True
    from create_summary_201 [OF True] obtain r where
      "create_summary summarizer t1 t2 data rows = ((Json (JObj (to_dict r)), 201), rows @ [r])"
      by blast
    then show ?thesis using Create by (simp add: status_def)
  next
    case False
    from create_summary_not_201 [OF False] show ?thesis using Create False by simp
  qed
next
  case (Update sid data t)
  then show ?thesis by (simp add: update_summary_length update_summary_status)
next
  case (Delete sid)
  with assms show ?thesis by simp
qed

lemma run_length:
  "\<forall>x\<in>set ops. \<not> is_delete x \<Longrightarrow>
   length (snd (run summarizer rows ops)) =
     length rows + length (filter (\<lambda>resp. status resp = 201) (fst (run summarizer rows ops)))"
proof (induction ops arbitrary: rows)
  case Nil
  then show ?case by simp
next
  case (Cons x xs)
  have x: "\<not> is_delete x" and xs: "\<forall>y\<in>set xs. \<not> is_delete y"
    using Cons.prems by simp_all
  obtain resp rows' where s: "step summarizer rows x = (resp, rows')"
    by (cases "step summarizer rows x")
  obtain resps rows'' where r: "run summarizer rows' xs = (resps, rows'')"
    by (cases "run summarizer rows' xs")
  have "length rows' = length rows + (if status resp = 201 then 1 else 0)"
    using step_length [OF x, of summarizer rows] s by simp
  moreover have "length rows'' = length rows' + length (filter (\<lambda>resp. status resp = 201) resps)"
    using Cons.IH [OF xs, of rows'] r by simp
  ultimately show ?case using s r by simp
qed






subsection \<open>The ordered query\<close>

lemma order_by_sorted:
  "sorted_wrt (\<lambda>a b. created_at b \<le> created_at a) (order_by_created_at_desc rows)"
proof -
  have "sorted (map (\<lambda>r. - created_at r) (order_by_created_at_desc rows))"
    unfolding order_by_created_at_desc_def by (rule sorted_sort_key)
  then show ?thesis by (simp add: sorted_map)
qed

lemma order_by_mset: "mset (order_by_created_at_desc rows) = mset rows"
  by (simp add: order_by_created_at_desc_def)

subsection \<open>The handlers on the sample data\<close>

lemma split_sample_text: "length (split sample_text) = 12"
  by (simp add: sample_text_def split_def str_lit_def is_space_def)

lemma split_sample_summary: "length (split (str_lit ''the quick bro'')) = 3"
  by (simp add: split_def str_lit_def is_space_def)

lemma take_sample: "take 13 sample_text = str_lit ''the quick bro''"
  by (simp add: sample_text_def str_lit_def)

lemma length_sample_text: "length sample_text = 57"
  by (simp add: sample_text_def str_lit_def)

lemma sample_ratio: "py_round2 (float_percentage 3 12) = 25"
  by code_simp


lemma create_sample:
  "create_summary sample_summarizer 5 6 (Some (sample_request (Some sample_text) None)) [] =
     ((Json (JObj (to_dict sample_row)), 201), [sample_row])"
  by (simp add: create_summary_def create_try_def sample_request_def split_sample_text
      sample_summarizer_def length_sample_text compression_ratio_of_def split_sample_summary
      sample_ratio data_get_def next_id_def sample_row_def take_sample Let_def)

lemma query_get_sample: "query_get [sample_row] 1 = Some sample_row"
  by (simp add: query_get_def sample_row_def)

lemma query_get_sample_Suc: "query_get [sample_row] (Suc 0) = Some sample_row"
  by (simp add: query_get_def sample_row_def)



lemma too_short_words: "word_count (str_lit ''too short'') = 2"
  by (simp add: word_count_def split_def str_lit_def is_space_def)

lemma blank_words: "word_count (str_lit ''   '') = 0"
  by (simp add: word_count_def split_def str_lit_def is_space_def)

lemma create_too_short_sample:
  "create_summary sample_summarizer 10 11
     (Some (sample_request (Some (str_lit ''too short'')) None)) rows =
   ((error_body (str_lit ''this text is too short to summarize''), 200), rows)"
  using too_short_words
  by (simp add: create_summary_def sample_request_def word_count_def)

lemma update_title_sample:
  "update_summary sample_summarizer 9 1 (Some (sample_request None (Some (str_lit ''New''))))
     [sample_row] =
   ((Json (JObj (to_dict (sample_row\<lparr>title := str_lit ''New'', updated_at := 9\<rparr>))), 200),
    [sample_row\<lparr>title := str_lit ''New'', updated_at := 9\<rparr>])"
  by (simp add: update_summary_def query_get_sample_Suc update_text_def sample_request_def
      update_row_def Let_def)

lemma run_sample_ops:
  "run sample_summarizer [] sample_ops =
     ([(Json (JObj (to_dict sample_row)), 201),
       (Json (JObj (to_dict (sample_row\<lparr>title := str_lit ''New'', updated_at := 9\<rparr>))), 200),
       (error_body (str_lit ''this text is too short to summarize''), 200)],
      [sample_row\<lparr>title := str_lit ''New'', updated_at := 9\<rparr>])"
  by (simp add: sample_ops_def create_sample update_title_sample create_too_short_sample
      del: One_nat_def)

section \<open>The claims\<close>



text \<open>
  Claim C2. A create whose text has fewer than ten words is to be rejected with a 4xx status
  and no record. For the two-word text \<^verbatim>\<open>too short\<close> the handler leaves the table as it
  was, but the status of its answer is 200.
\<close>

theorem create_too_short_returns_200:
  "create_summary summarizer utcnow1 utcnow2
     (Some \<lparr>req_text = Some (str_lit ''too short''), req_max_length = None,
            req_min_length = None, req_title = None\<rparr>) rows =
   ((error_body (str_lit ''this text is too short to summarize''), 200), rows)"
  by (simp add: create_summary_def split_def str_lit_def is_space_def)

text \<open>
  Claim C3. When an update of an existing record carries a text and the pipeline call
  fails, the answer is a 500 with the failure's message and the table is the one the request
  found: neither the title of the same request nor \<open>updated_at\<close> is written.
\<close>

theorem update_provider_failure_leaves_table:
  assumes "query_get rows sid = Some r"
    and "req_text d = Some new_text"
    and "summarizer new_text (data_get (req_max_length d) 130) (data_get (req_min_length d) 30) = Inl e"
  shows "update_summary summarizer utcnow sid (Some d) rows =
           ((error_body (str_exn e), 500), rows)"
  using assms by (simp add: update_summary_def update_text_def)

theorem update_provider_failure_leaves_table_witness:
  "query_get [sample_row] 1 = Some sample_row \<and>
   req_text (sample_request (Some (replicate 201 97)) (Some (str_lit ''New''))) =
     Some (replicate 201 97) \<and>
   sample_summarizer (replicate 201 97) 130 30 = Inl (ProviderError (str_lit ''input too long'')) \<and>
   update_summary sample_summarizer 9 1
     (Some (sample_request (Some (replicate 201 97)) (Some (str_lit ''New'')))) [sample_row] =
     ((error_body (str_lit ''input too long''), 500), [sample_row])"
proof -
  have q: "query_get [sample_row] 1 = Some sample_row"
    by (simp add: query_get_def sample_row_def)
  have t: "req_text (sample_request (Some (replicate 201 97)) (Some (str_lit ''New''))) =
     Some (replicate 201 97)"
    by (simp add: sample_request_def)
  have f: "sample_summarizer (replicate 201 97)
             (data_get (req_max_length (sample_request (Some (replicate 201 97)) (Some (str_lit ''New'')))) 130)
             (data_get (req_min_length (sample_request (Some (replicate 201 97)) (Some (str_lit ''New'')))) 30) =
           Inl (ProviderError (str_lit ''input too long''))"
    by (simp add: sample_summarizer_def)
  have g: "sample_summarizer (replicate 201 97) 130 30 = Inl (ProviderError (str_lit ''input too long''))"
    by (simp add: sample_summarizer_def)
  show ?thesis
    using update_provider_failure_leaves_table [where rows = "[sample_row]" and sid = "1" and r = "sample_row"
         and d = "sample_request (Some (replicate 201 97)) (Some (str_lit ''New''))"
         and new_text = "replicate 201 97" and summarizer = "sample_summarizer"
         and e = "ProviderError (str_lit ''input too long'')" and utcnow = "9"]
      q t f g by simp
qed



text \<open>
  Claim C5. The list operation answers 200 with one entry per row of the table (the entries
  are the rows in some order, each exactly as often as it is in the table), ordered by
  \<open>created_at\<close> descending. After a sequence of creates and updates on the empty table it
  returns as many entries as creates were answered with 201.
\<close>

theorem list_returns_all_sorted:
  "(\<exists>xs. get_summaries rows = (Json (JArr (map (\<lambda>r. JObj (to_dict r)) xs)), 200) \<and>
         mset xs = mset rows \<and>
         sorted_wrt (\<lambda>a b. created_at b \<le> created_at a) xs) \<and>
   ((\<forall>x\<in>set ops. \<not> is_delete x) \<longrightarrow>
      (\<exists>js. get_summaries (snd (run summarizer [] ops)) = (Json (JArr js), 200) \<and>
            length js =
              length (filter (\<lambda>resp. status resp = 201) (fst (run summarizer [] ops)))))"
proof (intro conjI impI)
  show "\<exists>xs. get_summaries rows = (Json (JArr (map (\<lambda>r. JObj (to_dict r)) xs)), 200) \<and>
         mset xs = mset rows \<and>
         sorted_wrt (\<lambda>a b. created_at b \<le> created_at a) xs"
    by (rule exI [of _ "order_by_created_at_desc rows"])
       (simp add: get_summaries_def order_by_mset order_by_sorted)
next
  assume nd: "\<forall>x\<in>set ops. \<not> is_delete x"
  have "length (order_by_created_at_desc (snd (run summarizer [] ops))) =
          length (snd (run summarizer [] ops))"
    by (simp add: order_by_created_at_desc_def)
  then show "\<exists>js. get_summaries (snd (run summarizer [] ops)) = (Json (JArr js), 200) \<and>
            length js =
              length (filter (\<lambda>resp. status resp = 201) (fst (run summarizer [] ops)))"
    using run_length [OF nd, of summarizer "[]"] by (simp add: get_summaries_def)
qed

theorem list_returns_all_sorted_witness:
  "list_all (\<lambda>x. \<not> is_delete x) sample_ops \<and>
   length (filter (\<lambda>resp. status resp = 201) (fst (run sample_summarizer [] sample_ops))) = 1 \<and>
   (\<exists>js. get_summaries (snd (run sample_summarizer [] sample_ops)) = (Json (JArr js), 200) \<and>
         length js =
           length (filter (\<lambda>resp. status resp = 201) (fst (run sample_summarizer [] sample_ops)))) \<and>
   (\<exists>xs. get_summaries [sample_row, sample_row\<lparr>summary_id := 2, created_at := 7\<rparr>] =
           (Json (JArr (map (\<lambda>r. JObj (to_dict r)) xs)), 200) \<and>
         mset xs = mset [sample_row, sample_row\<lparr>summary_id := 2, created_at := 7\<rparr>] \<and>
         sorted_wrt (\<lambda>a b. created_at b \<le> created_at a) xs)"
proof -
  have h: "\<forall>x\<in>set sample_ops. \<not> is_delete x"
    by (simp add: sample_ops_def)
  have n: "length (filter (\<lambda>resp. status resp = 201)
             (fst (run sample_summarizer [] sample_ops))) = 1"
    unfolding run_sample_ops by (simp add: status_def)
  note t = list_returns_all_sorted
      [where ops = sample_ops and summarizer = sample_summarizer
         and rows = "[sample_row, sample_row\<lparr>summary_id := 2, created_at := 7\<rparr>]"]
  have c1: "\<exists>js. get_summaries (snd (run sample_summarizer [] sample_ops)) = (Json (JArr js), 200) \<and>
         length js =
           length (filter (\<lambda>resp. status resp = 201) (fst (run sample_summarizer [] sample_ops)))"
    using t h by blast
  have c2: "\<exists>xs. get_summaries [sample_row, sample_row\<lparr>summary_id := 2, created_at := 7\<rparr>] =
           (Json (JArr (map (\<lambda>r. JObj (to_dict r)) xs)), 200) \<and>
         mset xs = mset [sample_row, sample_row\<lparr>summary_id := 2, created_at := 7\<rparr>] \<and>
         sorted_wrt (\<lambda>a b. created_at b \<le> created_at a) xs"
    using t by blast
  have h': "list_all (\<lambda>x. \<not> is_delete x) sample_ops"
    using h by (simp add: list_all_iff)
  show ?thesis using h' n c1 c2 by (intro conjI)
qed



text \<open>
  Claim C7. The health check answers 200 whatever the state of its three subsystems; each is
  reported as a boolean field, and a failure to reach the database is caught and reported as
  \<open>database_connected = false\<close>.
\<close>

theorem health_check_never_fails:
  "status (health_check summarizer_global cuda_is_available select_one) = 200 \<and>
   field (health_check summarizer_global cuda_is_available select_one) ''model_loaded'' =
     Some (JBool (summarizer_global \<noteq> None)) \<and>
   field (health_check summarizer_global cuda_is_available select_one) ''gpu_available'' =
     Some (JBool cuda_is_available) \<and>
   field (health_check summarizer_global cuda_is_available select_one) ''database_connected'' =
     Some (JBool (\<not> isl select_one)) \<and>
   health_check summarizer_global cuda_is_available (Inl e) =
     (Json (JObj [(''status'', JStr (str_lit ''healthy'')),
                  (''model_loaded'', JBool (summarizer_global \<noteq> None)),
                  (''gpu_available'', JBool cuda_is_available),
                  (''database_connected'', JBool False)]), 200)"
  by (cases select_one) (simp_all add: health_check_def status_def)

theorem health_check_never_fails_witness:
  "health_check (Some sample_summarizer) False (Inl ''unable to open database file'') =
     (Json (JObj [(''status'', JStr (str_lit ''healthy'')),
                  (''model_loaded'', JBool True),
                  (''gpu_available'', JBool False),
                  (''database_connected'', JBool False)]), 200)"
  using health_check_never_fails
    [where summarizer_global = "Some sample_summarizer" and cuda_is_available = False
       and select_one = "Inl ''unable to open database file''"
       and e = "''unable to open database file''"]
  by simp



text \<open>
  Claim C9. For an existing record and a replacement text of one to nine words that the
  pipeline summarizes, create rejects the text as too short while update answers 200, stores
  the text and the new summary and computes the ratio anew. A text has no word exactly when
  it is empty or all whitespace; update then answers 500 and leaves the table as it was, and
  when the pipeline did return a summary the error reported is the division by zero.
\<close>

theorem update_has_no_minimum_word_count:
  assumes "query_get rows sid = Some r" and "req_text d = Some new_text"
  shows "(0 < word_count new_text \<and> word_count new_text < 10 \<and>
          summarizer new_text (data_get (req_max_length d) 130)
            (data_get (req_min_length d) 30) = Inr g \<longrightarrow>
            create_summary summarizer utcnow1 utcnow2 (Some d) rows =
              ((error_body (str_lit ''this text is too short to summarize''), 200), rows) \<and>
            (\<exists>r'. fst (update_summary summarizer utcnow sid (Some d) rows) =
                    (Json (JObj (to_dict r')), 200) \<and>
                  query_get (snd (update_summary summarizer utcnow sid (Some d) rows)) sid =
                    Some r' \<and>
                  original_text r' = new_text \<and> summary_text r' = g \<and>
                  compression_ratio r' = spec_compression_ratio g new_text)) \<and>
         (word_count new_text = 0 \<longleftrightarrow> list_all is_space new_text) \<and>
         (word_count new_text = 0 \<longrightarrow>
            status (fst (update_summary summarizer utcnow sid (Some d) rows)) = 500 \<and>
            snd (update_summary summarizer utcnow sid (Some d) rows) = rows \<and>
            (summarizer new_text (data_get (req_max_length d) 130)
               (data_get (req_min_length d) 30) = Inr g \<longrightarrow>
               fst (update_summary summarizer utcnow sid (Some d) rows) =
                 (error_body (str_lit ''division by zero''), 500)))"
proof (intro conjI impI)
  assume h: "0 < word_count new_text \<and> word_count new_text < 10 \<and>
          summarizer new_text (data_get (req_max_length d) 130)
            (data_get (req_min_length d) 30) = Inr g"
  then show "create_summary summarizer utcnow1 utcnow2 (Some d) rows =
              ((error_body (str_lit ''this text is too short to summarize''), 200), rows)"
    using assms(2) by (simp add: create_summary_def word_count_def)
  let ?r = "r\<lparr>original_text := new_text, summary_text := g,
                    compression_ratio := spec_compression_ratio g new_text,
                    title := data_get (req_title d) (title r),
                    updated_at := utcnow\<rparr>"
  have u: "update_summary summarizer utcnow sid (Some d) rows =
             ((Json (JObj (to_dict ?r)), 200), update_row ?r rows)"
    using update_summary_text_ok [OF assms] h by blast
  have id: "summary_id r = sid" using assms(1) by (rule query_get_Some_id)
  have q: "query_get (update_row ?r rows) sid = Some ?r"
    using query_get_update_row_same [of rows ?r r] assms(1) id by simp
  show "\<exists>r'. fst (update_summary summarizer utcnow sid (Some d) rows) =
                    (Json (JObj (to_dict r')), 200) \<and>
                  query_get (snd (update_summary summarizer utcnow sid (Some d) rows)) sid =
                    Some r' \<and>
                  original_text r' = new_text \<and> summary_text r' = g \<and>
                  compression_ratio r' = spec_compression_ratio g new_text"
    by (rule exI [of _ ?r]) (simp add: u q)
next
  show "word_count new_text = 0 \<longleftrightarrow> list_all is_space new_text"
    by (rule word_count_0_iff)
next
  assume z: "word_count new_text = 0"
  note u = update_summary_no_words [OF assms z, of summarizer utcnow]
  show "status (fst (update_summary summarizer utcnow sid (Some d) rows)) = 500"
    by (simp add: u status_def)
  show "snd (update_summary summarizer utcnow sid (Some d) rows) = rows"
    by (simp add: u)
  assume "summarizer new_text (data_get (req_max_length d) 130)
               (data_get (req_min_length d) 30) = Inr g"
  then show "fst (update_summary summarizer utcnow sid (Some d) rows) =
                 (error_body (str_lit ''division by zero''), 500)"
    by (simp add: u)
qed

theorem update_has_no_minimum_word_count_witness:
  "query_get [sample_row] 1 = Some sample_row \<and>
   req_text (sample_request (Some (str_lit ''too short'')) None) = Some (str_lit ''too short'') \<and>
   0 < word_count (str_lit ''too short'') \<and> word_count (str_lit ''too short'') < 10 \<and>
   sample_summarizer (str_lit ''too short'') 130 30 = Inr (str_lit ''too short'') \<and>
   create_summary sample_summarizer 5 6
     (Some (sample_request (Some (str_lit ''too short'')) None)) [sample_row] =
     ((error_body (str_lit ''this text is too short to summarize''), 200), [sample_row]) \<and>
   (\<exists>r'. fst (update_summary sample_summarizer 9 1
                (Some (sample_request (Some (str_lit ''too short'')) None)) [sample_row]) =
            (Json (JObj (to_dict r')), 200) \<and>
         query_get (snd (update_summary sample_summarizer 9 1
                (Some (sample_request (Some (str_lit ''too short'')) None)) [sample_row])) 1 =
            Some r' \<and>
         original_text r' = str_lit ''too short'' \<and>
         summary_text r' = str_lit ''too short'' \<and>
         compression_ratio r' =
           spec_compression_ratio (str_lit ''too short'') (str_lit ''too short'')) \<and>
   req_text (sample_request (Some (str_lit ''   '')) None) = Some (str_lit ''   '') \<and>
   word_count (str_lit ''   '') = 0 \<and>
   list_all is_space (str_lit ''   '') \<and>
   sample_summarizer (str_lit ''   '') 130 30 = Inr (str_lit ''   '') \<and>
   update_summary sample_summarizer 9 1
     (Some (sample_request (Some (str_lit ''   '')) None)) [sample_row] =
     ((error_body (str_lit ''division by zero''), 500), [sample_row])"
proof -
  let ?d = "sample_request (Some (str_lit ''too short'')) None"
  let ?b = "sample_request (Some (str_lit ''   '')) None"
  have t1: "req_text ?d = Some (str_lit ''too short'')"
    by (simp add: sample_request_def)
  have t2: "req_text ?b = Some (str_lit ''   '')"
    by (simp add: sample_request_def)
  have w: "0 < word_count (str_lit ''too short'')" "word_count (str_lit ''too short'') < 10"
    by (simp_all add: too_short_words)
  have s1: "sample_summarizer (str_lit ''too short'') 130 30 = Inr (str_lit ''too short'')"
    by (simp add: sample_summarizer_def str_lit_def)
  have s1': "sample_summarizer (str_lit ''too short'') (data_get (req_max_length ?d) 130)
               (data_get (req_min_length ?d) 30) = Inr (str_lit ''too short'')"
    using s1 by (simp add: sample_request_def data_get_def)
  have s2: "sample_summarizer (str_lit ''   '') 130 30 = Inr (str_lit ''   '')"
    by (simp add: sample_summarizer_def str_lit_def)
  have s2': "sample_summarizer (str_lit ''   '') (data_get (req_max_length ?b) 130)
               (data_get (req_min_length ?b) 30) = Inr (str_lit ''   '')"
    using s2 by (simp add: sample_request_def data_get_def)
  note a = update_has_no_minimum_word_count
      [where rows = "[sample_row]" and sid = 1 and r = sample_row and d = ?d
         and new_text = "str_lit ''too short''" and summarizer = sample_summarizer
         and g = "str_lit ''too short''" and utcnow = 9 and ?utcnow1.0 = 5 and ?utcnow2.0 = 6,
       OF query_get_sample t1]
  note b = update_has_no_minimum_word_count
      [where rows = "[sample_row]" and sid = 1 and r = sample_row and d = ?b
         and new_text = "str_lit ''   ''" and summarizer = sample_summarizer
         and g = "str_lit ''   ''" and utcnow = 9 and ?utcnow1.0 = 5 and ?utcnow2.0 = 6,
       OF query_get_sample t2]
  have c1: "create_summary sample_summarizer 5 6 (Some ?d) [sample_row] =
     ((error_body (str_lit ''this text is too short to summarize''), 200), [sample_row])"
    using a w s1' by blast
  have c2: "\<exists>r'. fst (update_summary sample_summarizer 9 1 (Some ?d) [sample_row]) =
            (Json (JObj (to_dict r')), 200) \<and>
         query_get (snd (update_summary sample_summarizer 9 1 (Some ?d) [sample_row])) 1 =
            Some r' \<and>
         original_text r' = str_lit ''too short'' \<and>
         summary_text r' = str_lit ''too short'' \<and>
         compression_ratio r' =
           spec_compression_ratio (str_lit ''too short'') (str_lit ''too short'')"
    using a w s1' by blast
  have c3: "list_all is_space (str_lit ''   '')"
    using b blank_words by blast
  have c4: "fst (update_summary sample_summarizer 9 1 (Some ?b) [sample_row]) =
              (error_body (str_lit ''division by zero''), 500)"
    and c5: "snd (update_summary sample_summarizer 9 1 (Some ?b) [sample_row]) = [sample_row]"
    using b blank_words s2' by blast+
  have c6: "update_summary sample_summarizer 9 1 (Some ?b) [sample_row] =
     ((error_body (str_lit ''division by zero''), 500), [sample_row])"
    using c4 c5 by (simp add: prod_eq_iff)
  show ?thesis
    using query_get_sample t1 w s1 c1 c2 t2 blank_words c3 s2 c6 by (intro conjI)
qed

text \<open>
  Claim C10. The \<open>status\<close> field of the health check is the string \<^verbatim>\<open>healthy\<close> for every
  combination of the three subsystem flags.
\<close>

theorem health_status_always_healthy:
  "field (health_check summarizer_global cuda_is_available select_one) ''status'' =
     Some (JStr (str_lit ''healthy''))"
  by (simp add: health_check_def)

theorem health_status_always_healthy_witness:
  "field (health_check (None :: summarizer option) False (Inl ''unable to open database file''))
     ''status'' = Some (JStr (str_lit ''healthy''))"
  using health_status_always_healthy
    [where summarizer_global = "None :: summarizer option" and cuda_is_available = False
       and select_one = "Inl ''unable to open database file''"]
  by simp

end
